theory Spec2Isabelle
  imports Main "HOL-Library.List_Lexorder" "HOL-Library.Char_ord" "HOL-Library.Multiset"
begin

section \<open>Campus resource hub: bookings and threaded messaging\<close>

text \<open>
  A shallow embedding of the data access layer (\<^verbatim>\<open>bookings_dao.py\<close>,
  \<^verbatim>\<open>messages_dao.py\<close>, \<^verbatim>\<open>resources_dao.py\<close>) and of the request handlers that
  call it (\<^verbatim>\<open>controllers/bookings.py\<close>, \<^verbatim>\<open>controllers/messaging.py\<close>,
  \<^verbatim>\<open>controllers/admin.py\<close>).

  The store is SQLite. Every date and time column holds text, and SQLite compares text
  byte by byte; the model keeps these columns as \<^typ>\<open>string\<close> and compares them with the
  lexicographic order on character lists. Python integers are \<^typ>\<open>int\<close>. Every
  \<^verbatim>\<open>raise\<close> and \<^verbatim>\<open>abort\<close> of the source is a value of type \<open>error\<close>, returned
  on the left of a sum. The connection \<^verbatim>\<open>g.db_conn\<close> is an explicit value of type
  \<open>database\<close>, passed in and returned by every operation that writes; \<^verbatim>\<open>execute\<close>
  commits at once, so a write that happened before a later failure stays in the returned
  database.
\<close>

subsection \<open>Errors\<close>

text \<open>
  \<open>BookingConflict\<close> is the \<^verbatim>\<open>ValueError("Booking conflicts with an existing
  reservation.")\<close> of \<^verbatim>\<open>create_booking\<close>; \<open>InvalidIsoformat s\<close> is the
  \<^verbatim>\<open>ValueError\<close> that \<^verbatim>\<open>datetime.fromisoformat\<close> raises on the text \<open>s\<close>. Both are
  \<^verbatim>\<open>ValueError\<close> in Python (\<open>is_ValueError\<close>). \<open>HTTPException c\<close> is Flask's
  \<^verbatim>\<open>abort(c)\<close>.
\<close>

datatype error =
    BookingConflict
  | InvalidIsoformat string
  | MessagingSchemaError string
  | HTTPException int


definition SCHEMA_INSTRUCTIONS :: string where
  "SCHEMA_INSTRUCTIONS =
     ''Messaging tables are missing. Re-initialize the database with '' @
     ''`flask --app src.app init-db` followed by `python -m src.data_access.seed`.''"

subsection \<open>Rows of the store\<close>

text \<open>
  Modelled from the spec: the schema script \<^verbatim>\<open>campus_resource_hub_schema.sql\<close> is
  not among the sources. The tables carry the columns that the spec (sections 3 and 6)
  and the statements of the data access layer name, with no further row constraint; the
  columns \<^verbatim>\<open>created_at\<close>, \<^verbatim>\<open>updated_at\<close> and \<^verbatim>\<open>timestamp\<close> are filled by the store
  with its clock (\<^verbatim>\<open>CURRENT_TIMESTAMP\<close>) when an \<^verbatim>\<open>INSERT\<close> leaves them out. The
  clock reading is the argument \<open>now\<close> of every writing operation, one reading for
  all statements of the operation. Column names carry
  the alias letter of their table, as in the joins of the source (\<^verbatim>\<open>b.\<close>, \<^verbatim>\<open>r.\<close>,
  \<^verbatim>\<open>t.\<close>, \<^verbatim>\<open>m.\<close>).
\<close>

record booking_row =
  b_booking_id :: int
  b_resource_id :: int
  b_requester_id :: int
  b_start_datetime :: string
  b_end_datetime :: string
  b_status :: string
  b_approval_notes :: "string option"
  b_created_at :: string
  b_updated_at :: string

text \<open>
  Of a resource the core reads the owner, the approval flag, the status and the creation
  time; the display columns (title, description, category, location, capacity, images,
  availability rules) and the joined average rating are left out of the row.
\<close>

record resource_row =
  r_resource_id :: int
  r_owner_id :: int
  r_requires_approval :: int
  r_status :: string
  r_created_at :: string

record thread_row =
  t_thread_id :: int
  t_context_type :: string
  t_context_id :: "int option"
  t_created_by :: int
  t_created_at :: string

record message_row =
  m_message_id :: int
  m_thread_id :: "int option"
  m_sender_id :: int
  m_receiver_id :: int
  m_content :: string
  m_timestamp :: string

record admin_log_row =
  l_admin_id :: int
  l_action :: string
  l_target_table :: string
  l_details :: "string option"
  l_created_at :: string

text \<open>
  The tables \<^verbatim>\<open>threads\<close> and \<^verbatim>\<open>messages\<close> may be absent from a database that was
  not re-initialised: \<open>None\<close> is the missing table, on which every statement raises
  \<^verbatim>\<open>sqlite3.OperationalError\<close>.
\<close>

record database =
  bookings :: "booking_row list"
  resources :: "resource_row list"
  admin_logs :: "admin_log_row list"
  threads :: "thread_row list option"
  messages :: "message_row list option"

subsection \<open>Entities (\<^verbatim>\<open>models/entities.py\<close>)\<close>

text \<open>
  The dataclasses hold \<^verbatim>\<open>datetime\<close> values, of a type \<open>'d\<close> here. The conversion
  \<^verbatim>\<open>datetime.fromisoformat\<close> belongs to the Python library and is a parameter
  \<open>fromisoformat :: string \<Rightarrow> 'd option\<close> of every operation that builds an entity, with
  \<open>None\<close> where Python raises \<^verbatim>\<open>ValueError\<close>.
\<close>

record 'd Booking =
  booking_id :: int
  resource_id :: int
  requester_id :: int
  start_datetime :: 'd
  end_datetime :: 'd
  status :: string
  approval_notes :: "string option"
  created_at :: 'd
  updated_at :: 'd

record 'd Resource =
  resource_id :: int
  owner_id :: int
  requires_approval :: bool
  status :: string
  created_at :: 'd

record 'd Thread =
  thread_id :: int
  context_type :: string
  context_id :: "int option"
  created_by :: int
  created_at :: 'd

record 'd Message =
  message_id :: int
  thread_id :: int
  sender_id :: int
  receiver_id :: int
  content :: string
  timestamp :: 'd

record User =
  user_id :: int
  role :: string

definition is_admin :: "User \<Rightarrow> bool" where
  "is_admin u = (role u = ''admin'')"

subsection \<open>Store primitives (\<^verbatim>\<open>db.py\<close>)\<close>

text \<open>\<^verbatim>\<open>query_one\<close> is \<^verbatim>\<open>cursor.fetchone()\<close>: the first row of the result, if any.\<close>

definition query_one :: "'a list \<Rightarrow> 'a option" where
  "query_one rows = (case rows of [] \<Rightarrow> None | row # rest \<Rightarrow> Some row)"

text \<open>
  \<^verbatim>\<open>cursor.lastrowid\<close> after an \<^verbatim>\<open>INSERT\<close> that gives no key: SQLite takes one more
  than the largest key of the table, and 1 in an empty table.
\<close>

definition lastrowid :: "int list \<Rightarrow> int" where
  "lastrowid ids = (case ids of [] \<Rightarrow> 1 | i # rest \<Rightarrow> fold max rest i + 1)"

text \<open>Python's \<^verbatim>\<open>if x:\<close> on an optional integer: \<^verbatim>\<open>None\<close> and \<^verbatim>\<open>0\<close> are false.\<close>

definition truthy :: "int option \<Rightarrow> bool" where
  "truthy x = (case x of None \<Rightarrow> False | Some i \<Rightarrow> i \<noteq> 0)"

text \<open>\<^verbatim>\<open>dt.replace(" ", "T")\<close>.\<close>

definition replace_space_T :: "string \<Rightarrow> string" where
  "replace_space_T dt = map (\<lambda>c. if c = CHR '' '' then CHR ''T'' else c) dt"

definition parse_dt :: "(string \<Rightarrow> 'd option) \<Rightarrow> string \<Rightarrow> error + 'd" where
  "parse_dt fromisoformat dt =
     (case fromisoformat (replace_space_T dt) of
        None \<Rightarrow> Inl (InvalidIsoformat (replace_space_T dt))
      | Some d \<Rightarrow> Inr d)"

text \<open>\<^verbatim>\<open>str(n)\<close> for an integer, as the f-strings of the audit log use it.\<close>

fun str_nat :: "nat \<Rightarrow> string" where
  "str_nat n =
     (if n < 10 then [char_of (48 + n)]
      else str_nat (n div 10) @ [char_of (48 + n mod 10)])"

definition str_int :: "int \<Rightarrow> string" where
  "str_int i = (if i < 0 then CHR ''-'' # str_nat (nat (- i)) else str_nat (nat i))"

subsection \<open>Bookings (\<^verbatim>\<open>bookings_dao.py\<close>)\<close>

definition row_to_booking :: "(string \<Rightarrow> 'd option) \<Rightarrow> booking_row \<Rightarrow> error + 'd Booking" where
  "row_to_booking fromisoformat row =
     (case parse_dt fromisoformat (b_start_datetime row) of
        Inl err \<Rightarrow> Inl err
      | Inr s \<Rightarrow>
         (case parse_dt fromisoformat (b_end_datetime row) of
            Inl err \<Rightarrow> Inl err
          | Inr e \<Rightarrow>
             (case parse_dt fromisoformat (b_created_at row) of
                Inl err \<Rightarrow> Inl err
              | Inr c \<Rightarrow>
                 (case parse_dt fromisoformat (b_updated_at row) of
                    Inl err \<Rightarrow> Inl err
                  | Inr u \<Rightarrow>
                      Inr \<lparr> booking_id = b_booking_id row,
                            Booking.resource_id = b_resource_id row,
                            requester_id = b_requester_id row,
                            start_datetime = s,
                            end_datetime = e,
                            Booking.status = b_status row,
                            approval_notes = b_approval_notes row,
                            Booking.created_at = c,
                            updated_at = u \<rparr>))))"

text \<open>
  The \<^verbatim>\<open>WHERE\<close> clause of \<^verbatim>\<open>has_conflict\<close>. The clause on \<^verbatim>\<open>booking_id\<close> is
  added only when \<^verbatim>\<open>exclude_booking_id\<close> is true in Python's sense.
\<close>

definition conflicts_with ::
  "int \<Rightarrow> string \<Rightarrow> string \<Rightarrow> int option \<Rightarrow> booking_row \<Rightarrow> bool" where
  "conflicts_with rid start_value end_value exclude_booking_id b =
     (b_resource_id b = rid
      \<and> (b_status b = ''pending'' \<or> b_status b = ''approved'')
      \<and> \<not> (b_end_datetime b \<le> start_value \<or> b_start_datetime b \<ge> end_value)
      \<and> (if truthy exclude_booking_id then Some (b_booking_id b) \<noteq> exclude_booking_id else True))"

definition has_conflict ::
  "database \<Rightarrow> int \<Rightarrow> string \<Rightarrow> string \<Rightarrow> int option \<Rightarrow> bool" where
  "has_conflict db rid start_value end_value exclude_booking_id =
     (query_one (filter (conflicts_with rid start_value end_value exclude_booking_id) (bookings db))
        \<noteq> None)"

definition get_booking_by_id ::
  "(string \<Rightarrow> 'd option) \<Rightarrow> database \<Rightarrow> int \<Rightarrow> error + 'd Booking option" where
  "get_booking_by_id fromisoformat db bid =
     (case query_one (filter (\<lambda>b. b_booking_id b = bid) (bookings db)) of
        None \<Rightarrow> Inr None
      | Some row \<Rightarrow>
          (case row_to_booking fromisoformat row of Inl e \<Rightarrow> Inl e | Inr b \<Rightarrow> Inr (Some b)))"

text \<open>
  \<^verbatim>\<open>create_booking\<close> receives its two instants either as text or as \<^verbatim>\<open>datetime\<close>
  values that it turns into text with \<^verbatim>\<open>isoformat()\<close> first; \<open>start_value\<close> and
  \<open>end_value\<close> are the texts it goes on with.
\<close>

definition create_booking ::
  "(string \<Rightarrow> 'd option) \<Rightarrow> string \<Rightarrow> database \<Rightarrow> int \<Rightarrow> int \<Rightarrow> string \<Rightarrow> string \<Rightarrow> bool
     \<Rightarrow> string option \<Rightarrow> database \<times> (error + 'd Booking option)" where
  "create_booking fromisoformat now db rid uid start_value end_value requires_approval_arg notes =
     (if has_conflict db rid start_value end_value None then (db, Inl BookingConflict)
      else
        let new_status = (if requires_approval_arg then ''pending'' else ''approved'');
            new_id = lastrowid (map b_booking_id (bookings db));
            row = \<lparr> b_booking_id = new_id,
                    b_resource_id = rid,
                    b_requester_id = uid,
                    b_start_datetime = start_value,
                    b_end_datetime = end_value,
                    b_status = new_status,
                    b_approval_notes = notes,
                    b_created_at = now,
                    b_updated_at = now \<rparr>;
            db' = db\<lparr>bookings := bookings db @ [row]\<rparr>
        in (db', get_booking_by_id fromisoformat db' new_id))"

definition log_admin_action :: "string \<Rightarrow> database \<Rightarrow> int \<Rightarrow> string \<Rightarrow> string \<Rightarrow> database" where
  "log_admin_action now db admin_id target_table action =
     db\<lparr>admin_logs := admin_logs db @
        [\<lparr> l_admin_id = admin_id, l_action = action, l_target_table = target_table,
           l_details = None, l_created_at = now \<rparr>]\<rparr>"

definition update_bookings :: "(booking_row \<Rightarrow> bool) \<Rightarrow> (booking_row \<Rightarrow> booking_row) \<Rightarrow> database \<Rightarrow> database" where
  "update_bookings cond set_cols db =
     db\<lparr>bookings := map (\<lambda>b. if cond b then set_cols b else b) (bookings db)\<rparr>"

definition approve_booking :: "string \<Rightarrow> database \<Rightarrow> int \<Rightarrow> int \<Rightarrow> string option \<Rightarrow> database" where
  "approve_booking now db bid approver_id notes =
     log_admin_action now
       (update_bookings (\<lambda>b. b_booking_id b = bid \<and> b_status b = ''pending'')
          (\<lambda>b. b\<lparr>b_status := ''approved'', b_approval_notes := notes, b_updated_at := now\<rparr>) db)
       approver_id ''bookings'' (''Approved booking '' @ str_int bid)"

definition reject_booking :: "string \<Rightarrow> database \<Rightarrow> int \<Rightarrow> int \<Rightarrow> string option \<Rightarrow> database" where
  "reject_booking now db bid approver_id notes =
     log_admin_action now
       (update_bookings (\<lambda>b. b_booking_id b = bid \<and> b_status b = ''pending'')
          (\<lambda>b. b\<lparr>b_status := ''rejected'', b_approval_notes := notes, b_updated_at := now\<rparr>) db)
       approver_id ''bookings'' (''Rejected booking '' @ str_int bid)"

definition cancel_booking :: "string \<Rightarrow> database \<Rightarrow> int \<Rightarrow> database" where
  "cancel_booking now db bid =
     update_bookings (\<lambda>b. b_booking_id b = bid)
       (\<lambda>b. b\<lparr>b_status := ''cancelled'', b_updated_at := now\<rparr>) db"

definition complete_booking :: "string \<Rightarrow> database \<Rightarrow> int \<Rightarrow> database" where
  "complete_booking now db bid =
     update_bookings (\<lambda>b. b_booking_id b = bid)
       (\<lambda>b. b\<lparr>b_status := ''completed'', b_updated_at := now\<rparr>) db"

subsection \<open>Resources (\<^verbatim>\<open>resources_dao.py\<close>)\<close>

definition row_to_resource :: "(string \<Rightarrow> 'd option) \<Rightarrow> resource_row \<Rightarrow> error + 'd Resource" where
  "row_to_resource fromisoformat row =
     (case parse_dt fromisoformat (r_created_at row) of Inl e \<Rightarrow> Inl e | Inr c \<Rightarrow>
        Inr \<lparr> Resource.resource_id = r_resource_id row,
              owner_id = r_owner_id row,
              requires_approval = (r_requires_approval row \<noteq> 0),
              Resource.status = r_status row,
              Resource.created_at = c \<rparr>)"

definition get_resource_by_id ::
  "(string \<Rightarrow> 'd option) \<Rightarrow> database \<Rightarrow> int \<Rightarrow> bool \<Rightarrow> error + 'd Resource option" where
  "get_resource_by_id fromisoformat db rid include_unpublished =
     (case query_one (filter (\<lambda>r. r_resource_id r = rid
                                \<and> (include_unpublished \<or> r_status r = ''published''))
                        (resources db)) of
        None \<Rightarrow> Inr None
      | Some row \<Rightarrow>
          (case row_to_resource fromisoformat row of Inl e \<Rightarrow> Inl e | Inr r \<Rightarrow> Inr (Some r)))"

subsection \<open>Threads and messages (\<^verbatim>\<open>messages_dao.py\<close>)\<close>

text \<open>
  Every operation wraps its statement in \<^verbatim>\<open>try\<close> and turns
  \<^verbatim>\<open>sqlite3.OperationalError\<close> into \<^verbatim>\<open>MessagingSchemaError(_SCHEMA_INSTRUCTIONS)\<close>.
\<close>

definition schema_error :: error where
  "schema_error = MessagingSchemaError SCHEMA_INSTRUCTIONS"

text \<open>A list comprehension \<^verbatim>\<open>[f(row) for row in rows]\<close> whose \<^verbatim>\<open>f\<close> may raise.\<close>

fun map_rows :: "('a \<Rightarrow> error + 'b) \<Rightarrow> 'a list \<Rightarrow> error + 'b list" where
  "map_rows f [] = Inr []"
| "map_rows f (row # rows) =
     (case f row of
        Inl e \<Rightarrow> Inl e
      | Inr x \<Rightarrow> (case map_rows f rows of Inl e \<Rightarrow> Inl e | Inr xs \<Rightarrow> Inr (x # xs)))"

definition row_to_message :: "(string \<Rightarrow> 'd option) \<Rightarrow> message_row \<Rightarrow> error + 'd Message" where
  "row_to_message fromisoformat row =
     (case parse_dt fromisoformat (m_timestamp row) of Inl e \<Rightarrow> Inl e | Inr ts \<Rightarrow>
        Inr \<lparr> message_id = m_message_id row,
              Message.thread_id =
                (case m_thread_id row of None \<Rightarrow> m_message_id row | Some t \<Rightarrow> t),
              sender_id = m_sender_id row,
              receiver_id = m_receiver_id row,
              content = m_content row,
              timestamp = ts \<rparr>)"

definition row_to_thread :: "(string \<Rightarrow> 'd option) \<Rightarrow> thread_row \<Rightarrow> error + 'd Thread" where
  "row_to_thread fromisoformat row =
     (case parse_dt fromisoformat (t_created_at row) of Inl e \<Rightarrow> Inl e | Inr c \<Rightarrow>
        Inr \<lparr> Thread.thread_id = t_thread_id row,
              context_type = t_context_type row,
              context_id = t_context_id row,
              created_by = t_created_by row,
              Thread.created_at = c \<rparr>)"

definition get_thread ::
  "(string \<Rightarrow> 'd option) \<Rightarrow> database \<Rightarrow> int \<Rightarrow> error + 'd Thread option" where
  "get_thread fromisoformat db tid =
     (case threads db of
        None \<Rightarrow> Inl schema_error
      | Some ts \<Rightarrow>
          (case query_one (filter (\<lambda>t. t_thread_id t = tid) ts) of
             None \<Rightarrow> Inr None
           | Some row \<Rightarrow>
               (case row_to_thread fromisoformat row of Inl e \<Rightarrow> Inl e | Inr t \<Rightarrow> Inr (Some t))))"

definition get_message_by_id ::
  "(string \<Rightarrow> 'd option) \<Rightarrow> database \<Rightarrow> int \<Rightarrow> error + 'd Message option" where
  "get_message_by_id fromisoformat db mid =
     (case messages db of
        None \<Rightarrow> Inl schema_error
      | Some ms \<Rightarrow>
          (case query_one (filter (\<lambda>m. m_message_id m = mid) ms) of
             None \<Rightarrow> Inr None
           | Some row \<Rightarrow>
               (case row_to_message fromisoformat row of Inl e \<Rightarrow> Inl e | Inr m \<Rightarrow> Inr (Some m))))"

definition create_thread ::
  "(string \<Rightarrow> 'd option) \<Rightarrow> string \<Rightarrow> database \<Rightarrow> string \<Rightarrow> int option \<Rightarrow> int
     \<Rightarrow> database \<times> (error + 'd Thread option)" where
  "create_thread fromisoformat now db ctx_type ctx_id creator =
     (case threads db of
        None \<Rightarrow> (db, Inl schema_error)
      | Some ts \<Rightarrow>
          let new_id = lastrowid (map t_thread_id ts);
              row = \<lparr> t_thread_id = new_id, t_context_type = ctx_type, t_context_id = ctx_id,
                      t_created_by = creator, t_created_at = now \<rparr>;
              db' = db\<lparr>threads := Some (ts @ [row])\<rparr>
          in (db', get_thread fromisoformat db' new_id))"

definition post_message ::
  "(string \<Rightarrow> 'd option) \<Rightarrow> string \<Rightarrow> database \<Rightarrow> int \<Rightarrow> int \<Rightarrow> int \<Rightarrow> string
     \<Rightarrow> database \<times> (error + 'd Message option)" where
  "post_message fromisoformat now db tid sender receiver text =
     (case messages db of
        None \<Rightarrow> (db, Inl schema_error)
      | Some ms \<Rightarrow>
          let new_id = lastrowid (map m_message_id ms);
              row = \<lparr> m_message_id = new_id, m_thread_id = Some tid, m_sender_id = sender,
                      m_receiver_id = receiver, m_content = text, m_timestamp = now \<rparr>;
              db' = db\<lparr>messages := Some (ms @ [row])\<rparr>
          in (db', get_message_by_id fromisoformat db' new_id))"

text \<open>
  \<^verbatim>\<open>ORDER BY timestamp ASC\<close> sorts the stored texts. SQL leaves the order of rows
  with equal keys open; \<open>sort_key\<close> keeps them in table order, and no statement below
  depends on that choice.
\<close>

definition messages_of_thread :: "message_row list \<Rightarrow> int \<Rightarrow> message_row list" where
  "messages_of_thread ms tid = filter (\<lambda>m. m_thread_id m = Some tid) ms"

definition get_messages ::
  "(string \<Rightarrow> 'd option) \<Rightarrow> database \<Rightarrow> int \<Rightarrow> error + 'd Message list" where
  "get_messages fromisoformat db tid =
     (case messages db of
        None \<Rightarrow> Inl schema_error
      | Some ms \<Rightarrow>
          map_rows (row_to_message fromisoformat)
            (sort_key m_timestamp (messages_of_thread ms tid)))"

definition get_messages_since ::
  "(string \<Rightarrow> 'd option) \<Rightarrow> database \<Rightarrow> int \<Rightarrow> string \<Rightarrow> error + 'd Message list" where
  "get_messages_since fromisoformat db tid since =
     (case messages db of
        None \<Rightarrow> Inl schema_error
      | Some ms \<Rightarrow>
          map_rows (row_to_message fromisoformat)
            (sort_key m_timestamp
               (filter (\<lambda>m. m_thread_id m = Some tid \<and> m_timestamp m > since) ms)))"

definition get_last_message ::
  "(string \<Rightarrow> 'd option) \<Rightarrow> database \<Rightarrow> int \<Rightarrow> error + 'd Message option" where
  "get_last_message fromisoformat db tid =
     (case messages db of
        None \<Rightarrow> Inl schema_error
      | Some ms \<Rightarrow>
          (case query_one (rev (sort_key m_timestamp (messages_of_thread ms tid))) of
             None \<Rightarrow> Inr None
           | Some row \<Rightarrow>
               (case row_to_message fromisoformat row of Inl e \<Rightarrow> Inl e | Inr m \<Rightarrow> Inr (Some m))))"

text \<open>
  The rows of the two listings: the columns of the thread (\<^verbatim>\<open>t.*\<close>) and the two
  aggregates of its group of joined messages.
\<close>

record thread_listing = thread_row +
  last_activity :: "string option"
  message_count :: int

definition max_timestamp :: "message_row list \<Rightarrow> string option" where
  "max_timestamp ms =
     (case ms of [] \<Rightarrow> None | m # rest \<Rightarrow> Some (fold max (map m_timestamp rest) (m_timestamp m)))"

definition listing_of :: "thread_row \<Rightarrow> message_row list \<Rightarrow> thread_listing" where
  "listing_of t grp =
     thread_row.extend t
       (thread_listing.fields (max_timestamp grp) (int (length grp)))"

text \<open>
  \<^verbatim>\<open>ORDER BY (last_activity IS NULL), last_activity DESC\<close>: \<open>activity_before a b\<close>
  says that a row with last activity \<open>a\<close> may stand before one with \<open>b\<close>. The sort is
  an insertion sort with this comparison.
\<close>

fun activity_before :: "string option \<Rightarrow> string option \<Rightarrow> bool" where
  "activity_before (Some x) (Some y) = (y \<le> x)"
| "activity_before (Some x) None = True"
| "activity_before None (Some y) = False"
| "activity_before None None = True"

fun insert_listing :: "thread_listing \<Rightarrow> thread_listing list \<Rightarrow> thread_listing list" where
  "insert_listing x [] = [x]"
| "insert_listing x (y # ys) =
     (if activity_before (last_activity x) (last_activity y) then x # y # ys
      else y # insert_listing x ys)"

definition order_by_activity :: "thread_listing list \<Rightarrow> thread_listing list" where
  "order_by_activity rows = foldr insert_listing rows []"

text \<open>
  \<^verbatim>\<open>thread_id\<close> is the key of \<^verbatim>\<open>threads\<close>, so \<^verbatim>\<open>GROUP BY t.thread_id\<close> makes one
  group for each thread row. With the \<^verbatim>\<open>LEFT JOIN\<close> of the admin listing a thread
  without messages keeps a group, with no last activity and count 0.
\<close>

definition list_threads_for_admin :: "database \<Rightarrow> error + thread_listing list" where
  "list_threads_for_admin db =
     (case threads db of
        None \<Rightarrow> Inl schema_error
      | Some ts \<Rightarrow>
          (case messages db of
             None \<Rightarrow> Inl schema_error
           | Some ms \<Rightarrow>
               Inr (order_by_activity
                      (map (\<lambda>t. listing_of t (messages_of_thread ms (t_thread_id t))) ts))))"

text \<open>
  In the listing of a user the \<^verbatim>\<open>WHERE\<close> clause on sender and receiver filters the
  joined rows before they are grouped: a group holds the messages of the thread that the
  user sent or received, and a thread with no such message has no group.
\<close>

definition user_messages_of_thread :: "message_row list \<Rightarrow> int \<Rightarrow> int \<Rightarrow> message_row list" where
  "user_messages_of_thread ms uid tid =
     filter (\<lambda>m. m_sender_id m = uid \<or> m_receiver_id m = uid) (messages_of_thread ms tid)"

definition list_threads_for_user :: "database \<Rightarrow> int \<Rightarrow> error + thread_listing list" where
  "list_threads_for_user db uid =
     (case threads db of
        None \<Rightarrow> Inl schema_error
      | Some ts \<Rightarrow>
          (case messages db of
             None \<Rightarrow> Inl schema_error
           | Some ms \<Rightarrow>
               Inr (order_by_activity
                      (map (\<lambda>t. listing_of t (user_messages_of_thread ms uid (t_thread_id t)))
                         (filter (\<lambda>t. user_messages_of_thread ms uid (t_thread_id t) \<noteq> []) ts)))))"

subsection \<open>Request handlers\<close>

text \<open>
  A handler returns the database it leaves behind, the messages it flashed (text and
  category) and its response. An exception that no handler catches, \<^verbatim>\<open>abort\<close>
  included, ends the request: \<open>Raised\<close>.
\<close>

type_synonym flash = "string \<times> string"

datatype endpoint =
    resources_detail int
  | bookings_my_bookings
  | messaging_inbox
  | messaging_thread int

record 'd thread_context =
  ctx_type :: string
  ctx_id :: "int option"
  ctx_resource :: "'d Resource option"
  ctx_booking :: "'d Booking option"

record message_json =
  j_message_id :: int
  j_sender_id :: int
  j_receiver_id :: int
  j_content :: string
  j_timestamp :: string

datatype 'd response =
    Redirect endpoint
  | Render_messaging_thread "'d Thread" "'d Message list" "int set" "'d thread_context"
  | Json_messages "message_json list"
  | Raised error

subsubsection \<open>\<^verbatim>\<open>controllers/bookings.py\<close>\<close>



subsubsection \<open>\<^verbatim>\<open>controllers/messaging.py\<close>\<close>

text \<open>
  \<^verbatim>\<open>MessageForm\<close> has one field, \<^verbatim>\<open>content\<close>, with the validators
  \<^verbatim>\<open>InputRequired()\<close> and \<^verbatim>\<open>Length(max=2000)\<close>. The validators belong to WTForms;
  they are written out from their documented behaviour: \<^verbatim>\<open>InputRequired\<close> passes when
  the field was submitted with a non-empty text, \<^verbatim>\<open>Length\<close> when the length of the
  data lies between \<open>min\<close> and \<open>max\<close>, where \<open>-1\<close> is no bound. The form also
  carries whether the request submits it (its method) and whether its CSRF token is valid.
\<close>

record MessageForm =
  is_submitted :: bool
  csrf_valid :: bool
  content_raw :: "string option"

definition InputRequired :: "string option \<Rightarrow> bool" where
  "InputRequired raw = (case raw of None \<Rightarrow> False | Some s \<Rightarrow> s \<noteq> [])"

definition Length_validator :: "int \<Rightarrow> int \<Rightarrow> string option \<Rightarrow> bool" where
  "Length_validator min_len max_len data =
     (let n = (case data of None \<Rightarrow> 0 | Some s \<Rightarrow> int (length s))
      in n \<ge> min_len \<and> (max_len = - 1 \<or> n \<le> max_len))"

definition validate_on_submit :: "MessageForm \<Rightarrow> bool" where
  "validate_on_submit form =
     (is_submitted form \<and> csrf_valid form
      \<and> InputRequired (content_raw form) \<and> Length_validator (- 1) 2000 (content_raw form))"

definition content_data :: "MessageForm \<Rightarrow> string" where
  "content_data form = (case content_raw form of None \<Rightarrow> [] | Some s \<Rightarrow> s)"

definition thread_participants ::
  "(string \<Rightarrow> 'd option) \<Rightarrow> database \<Rightarrow> int \<Rightarrow> error + int set" where
  "thread_participants fromisoformat db tid =
     (case get_thread fromisoformat db tid of
        Inl e \<Rightarrow> Inl e
      | Inr None \<Rightarrow> Inl (HTTPException 404)
      | Inr (Some thread) \<Rightarrow>
          (case get_messages fromisoformat db tid of
             Inl e \<Rightarrow> Inl e
           | Inr msgs \<Rightarrow>
               let participants = set (map sender_id msgs) \<union> set (map receiver_id msgs) in
               if context_type thread = ''resource'' \<and> truthy (context_id thread) then
                 (case get_resource_by_id fromisoformat db
                         (case context_id thread of Some i \<Rightarrow> i | None \<Rightarrow> 0) True of
                    Inl e \<Rightarrow> Inl e
                  | Inr None \<Rightarrow> Inr participants
                  | Inr (Some resource) \<Rightarrow> Inr (insert (owner_id resource) participants))
               else if context_type thread = ''booking'' \<and> truthy (context_id thread) then
                 (case get_booking_by_id fromisoformat db
                         (case context_id thread of Some i \<Rightarrow> i | None \<Rightarrow> 0) of
                    Inl e \<Rightarrow> Inl e
                  | Inr None \<Rightarrow> Inr participants
                  | Inr (Some booking) \<Rightarrow>
                      (case get_resource_by_id fromisoformat db
                              (Booking.resource_id booking) True of
                         Inl e \<Rightarrow> Inl e
                       | Inr None \<Rightarrow> Inr (insert (requester_id booking) participants)
                       | Inr (Some resource) \<Rightarrow>
                           Inr (insert (owner_id resource)
                                  (insert (requester_id booking) participants))))
               else Inr participants))"

definition ensure_thread_access ::
  "(string \<Rightarrow> 'd option) \<Rightarrow> database \<Rightarrow> User \<Rightarrow> int \<Rightarrow> error + ('d Thread \<times> int set)" where
  "ensure_thread_access fromisoformat db current_user tid =
     (case get_thread fromisoformat db tid of
        Inl e \<Rightarrow> Inl e
      | Inr None \<Rightarrow> Inl (HTTPException 404)
      | Inr (Some thread) \<Rightarrow>
          (case thread_participants fromisoformat db tid of
             Inl e \<Rightarrow> Inl e
           | Inr participants \<Rightarrow>
               if user_id current_user \<notin> participants \<and> \<not> is_admin current_user
               then Inl (HTTPException 403)
               else Inr (thread, participants)))"

definition resolve_context ::
  "(string \<Rightarrow> 'd option) \<Rightarrow> database \<Rightarrow> 'd Thread \<Rightarrow> error + 'd thread_context" where
  "resolve_context fromisoformat db thread =
     (let ctx = \<lparr> ctx_type = context_type thread, ctx_id = context_id thread,
                  ctx_resource = None, ctx_booking = None \<rparr> in
      if context_type thread = ''resource'' \<and> truthy (context_id thread) then
        (case get_resource_by_id fromisoformat db
                (case context_id thread of Some i \<Rightarrow> i | None \<Rightarrow> 0) True of
           Inl e \<Rightarrow> Inl e
         | Inr resource \<Rightarrow> Inr (ctx\<lparr>ctx_resource := resource\<rparr>))
      else if context_type thread = ''booking'' \<and> truthy (context_id thread) then
        (case get_booking_by_id fromisoformat db
                (case context_id thread of Some i \<Rightarrow> i | None \<Rightarrow> 0) of
           Inl e \<Rightarrow> Inl e
         | Inr None \<Rightarrow> Inr ctx
         | Inr (Some booking) \<Rightarrow>
             (case get_resource_by_id fromisoformat db (Booking.resource_id booking) True of
                Inl e \<Rightarrow> Inl e
              | Inr resource \<Rightarrow>
                  Inr (ctx\<lparr>ctx_booking := Some booking, ctx_resource := resource\<rparr>)))
      else Inr ctx)"

text \<open>
  The view \<^verbatim>\<open>thread\<close> of the messaging blueprint (named \<open>thread_view\<close>: the entity
  has the name already). Its first \<^verbatim>\<open>try\<close> covers the access check and the read of
  the messages, its second the call of \<^verbatim>\<open>post_message\<close>; each catches
  \<^verbatim>\<open>MessagingSchemaError\<close> only.
\<close>

definition thread_view ::
  "(string \<Rightarrow> 'd option) \<Rightarrow> string \<Rightarrow> database \<Rightarrow> User \<Rightarrow> int \<Rightarrow> MessageForm
     \<Rightarrow> database \<times> flash list \<times> 'd response" where
  "thread_view fromisoformat now db current_user tid form =
     (case (case ensure_thread_access fromisoformat db current_user tid of
              Inl e \<Rightarrow> Inl e
            | Inr access \<Rightarrow>
                (case get_messages fromisoformat db tid of
                   Inl e \<Rightarrow> Inl e
                 | Inr msgs \<Rightarrow> Inr (access, msgs))) of
        Inl (MessagingSchemaError text) \<Rightarrow> (db, [(text, ''warning'')], Redirect messaging_inbox)
      | Inl e \<Rightarrow> (db, [], Raised e)
      | Inr ((thread, participants), msgs) \<Rightarrow>
          if validate_on_submit form then
            (if msgs = [] then (db, [], Raised (HTTPException 400))
             else
               let last_message = last msgs;
                   recipient = (if sender_id last_message = user_id current_user
                                then receiver_id last_message else sender_id last_message)
               in (case post_message fromisoformat now db tid (user_id current_user) recipient
                         (content_data form) of
                     (db', Inl (MessagingSchemaError text)) \<Rightarrow>
                       (db', [(text, ''warning'')], Redirect messaging_inbox)
                   | (db', Inl e) \<Rightarrow> (db', [], Raised e)
                   | (db', Inr posted) \<Rightarrow>
                       (db', [(''Message sent.'', ''success'')], Redirect (messaging_thread tid))))
          else
            (case resolve_context fromisoformat db thread of
               Inl e \<Rightarrow> (db, [], Raised e)
             | Inr ctx \<Rightarrow> (db, [], Render_messaging_thread thread msgs participants ctx)))"

text \<open>
  The polling view \<^verbatim>\<open>thread_since\<close>. The query parameter \<^verbatim>\<open>ts\<close> is \<open>None\<close>
  when the request has none; \<^verbatim>\<open>datetime.isoformat\<close> is the parameter \<open>isoformat\<close>.
  The view writes nothing and flashes nothing, so it returns its response only.
\<close>

definition thread_since ::
  "(string \<Rightarrow> 'd option) \<Rightarrow> ('d \<Rightarrow> string) \<Rightarrow> database \<Rightarrow> User \<Rightarrow> int \<Rightarrow> string option
     \<Rightarrow> 'd response" where
  "thread_since fromisoformat isoformat db current_user tid ts =
     (case ensure_thread_access fromisoformat db current_user tid of
        Inl (MessagingSchemaError text) \<Rightarrow> Json_messages []
      | Inl e \<Rightarrow> Raised e
      | Inr access \<Rightarrow>
          (case ts of
             None \<Rightarrow> Raised (HTTPException 400)
           | Some since \<Rightarrow>
               if since = [] then Raised (HTTPException 400)
               else
                 (case get_messages_since fromisoformat db tid since of
                    Inl (MessagingSchemaError text) \<Rightarrow> Json_messages []
                  | Inl e \<Rightarrow> Raised e
                  | Inr msgs \<Rightarrow>
                      Json_messages
                        (map (\<lambda>msg. \<lparr> j_message_id = message_id msg,
                                      j_sender_id = sender_id msg,
                                      j_receiver_id = receiver_id msg,
                                      j_content = content msg,
                                      j_timestamp = isoformat (timestamp msg) \<rparr>) msgs))))"

subsubsection \<open>\<^verbatim>\<open>controllers/admin.py\<close>\<close>


text \<open>
  The view \<^verbatim>\<open>threads\<close> of the admin blueprint (\<open>admin_threads\<close> here) calls
  \<^verbatim>\<open>list_threads_for_admin()\<close> outside any \<^verbatim>\<open>try\<close> and builds one item for each
  row whose thread it finds.
\<close>

record 'd thread_item =
  item_thread :: "'d Thread"
  item_context :: "'d thread_context"
  item_message_count :: int
  item_last_message :: "'d Message option"

fun admin_thread_items ::
  "(string \<Rightarrow> 'd option) \<Rightarrow> database \<Rightarrow> thread_listing list \<Rightarrow> error + 'd thread_item list" where
  "admin_thread_items fromisoformat db [] = Inr []"
| "admin_thread_items fromisoformat db (row # rows) =
     (case get_thread fromisoformat db (t_thread_id row) of
        Inl e \<Rightarrow> Inl e
      | Inr None \<Rightarrow> admin_thread_items fromisoformat db rows
      | Inr (Some thread) \<Rightarrow>
          (case get_last_message fromisoformat db (Thread.thread_id thread) of
             Inl e \<Rightarrow> Inl e
           | Inr last_message \<Rightarrow>
               (case resolve_context fromisoformat db thread of
                  Inl e \<Rightarrow> Inl e
                | Inr ctx \<Rightarrow>
                    (case admin_thread_items fromisoformat db rows of
                       Inl e \<Rightarrow> Inl e
                     | Inr items \<Rightarrow>
                         Inr (\<lparr> item_thread = thread, item_context = ctx,
                                 item_message_count = message_count row,
                                 item_last_message = last_message \<rparr> # items)))))"

definition admin_threads ::
  "(string \<Rightarrow> 'd option) \<Rightarrow> database \<Rightarrow> error + 'd thread_item list" where
  "admin_threads fromisoformat db =
     (case list_threads_for_admin db of
        Inl e \<Rightarrow> Inl e
      | Inr rows \<Rightarrow> admin_thread_items fromisoformat db rows)"

subsection \<open>Notions used in the statements\<close>

text \<open>The row that \<^verbatim>\<open>create_booking\<close> inserts when it finds no conflict.\<close>

definition new_booking_row ::
  "string \<Rightarrow> database \<Rightarrow> int \<Rightarrow> int \<Rightarrow> string \<Rightarrow> string \<Rightarrow> bool \<Rightarrow> string option \<Rightarrow> booking_row" where
  "new_booking_row now db rid uid start_value end_value requires_approval_arg notes =
     \<lparr> b_booking_id = lastrowid (map b_booking_id (bookings db)),
       b_resource_id = rid,
       b_requester_id = uid,
       b_start_datetime = start_value,
       b_end_datetime = end_value,
       b_status = (if requires_approval_arg then ''pending'' else ''approved''),
       b_approval_notes = notes,
       b_created_at = now,
       b_updated_at = now \<rparr>"

text \<open>
  The keys that the store assigns start at 1: a booking table filled through
  \<^verbatim>\<open>create_booking\<close> has positive keys only.
\<close>

definition booking_keys_positive :: "database \<Rightarrow> bool" where
  "booking_keys_positive db = list_all (\<lambda>b. 0 < b_booking_id b) (bookings db)"

subsection \<open>Example databases\<close>

text \<open>
  Scenario 2 of the spec: resource 7 holds one approved booking from 09:00 to 11:00 on
  2025-01-03. Thread 1 is a booking thread on that booking: the requester (user 3) wrote
  to the owner (user 5), and an administrator (user 9) answered the requester.
\<close>

definition scenario_booking :: booking_row where
  "scenario_booking =
     \<lparr> b_booking_id = 1, b_resource_id = 7, b_requester_id = 3,
       b_start_datetime = ''2025-01-03T09:00:00'', b_end_datetime = ''2025-01-03T11:00:00'',
       b_status = ''approved'', b_approval_notes = None,
       b_created_at = ''2025-01-01 08:00:00'', b_updated_at = ''2025-01-01 08:00:00'' \<rparr>"

definition scenario_resource :: resource_row where
  "scenario_resource =
     \<lparr> r_resource_id = 7, r_owner_id = 5, r_requires_approval = 1,
       r_status = ''published'', r_created_at = ''2024-12-01 08:00:00'' \<rparr>"

definition scenario_thread :: thread_row where
  "scenario_thread =
     \<lparr> t_thread_id = 1, t_context_type = ''booking'', t_context_id = Some 1,
       t_created_by = 3, t_created_at = ''2025-01-02 10:00:00'' \<rparr>"

definition scenario_message_1 :: message_row where
  "scenario_message_1 =
     \<lparr> m_message_id = 1, m_thread_id = Some 1, m_sender_id = 3, m_receiver_id = 5,
       m_content = ''Is the lab free?'', m_timestamp = ''2025-01-02 10:00:00'' \<rparr>"

definition scenario_message_2 :: message_row where
  "scenario_message_2 =
     \<lparr> m_message_id = 2, m_thread_id = Some 1, m_sender_id = 9, m_receiver_id = 3,
       m_content = ''It is.'', m_timestamp = ''2025-01-02 10:05:00'' \<rparr>"

definition scenario_db :: database where
  "scenario_db =
     \<lparr> bookings = [scenario_booking], resources = [scenario_resource], admin_logs = [],
       threads = Some [scenario_thread],
       messages = Some [scenario_message_1, scenario_message_2] \<rparr>"

text \<open>The same database before any message was posted, and without the messaging tables.\<close>

definition quiet_db :: database where
  "quiet_db = scenario_db\<lparr>messages := Some []\<rparr>"


text \<open>Scenario 1 of the spec: the booking of resource 7 still waits for approval.\<close>

definition pending_db :: database where
  "pending_db = scenario_db\<lparr>bookings := [scenario_booking\<lparr>b_status := ''pending''\<rparr>]\<rparr>"


section \<open>Properties\<close>

subsection \<open>Store primitives\<close>

lemma query_one_None: "(query_one xs = None) = (xs = [])"
  by (cases xs) (simp_all add: query_one_def)

lemma has_conflict_iff:
  "has_conflict db rid sv ev ex =
     (\<exists>b \<in> set (bookings db). conflicts_with rid sv ev ex b)"
  by (auto simp: has_conflict_def query_one_None filter_empty_conv)

lemma fold_max_ge: "(a::int) \<le> fold max xs a \<and> (\<forall>x \<in> set xs. x \<le> fold max xs a)"
proof (induction xs arbitrary: a)
  case Nil show ?case by simp
next
  case (Cons y ys)
  have "max y a \<le> fold max ys (max y a)" and "\<forall>x \<in> set ys. x \<le> fold max ys (max y a)"
    using Cons.IH[of "max y a"] by auto
  then show ?case by auto
qed

lemma lastrowid_fresh: "i \<in> set ids \<Longrightarrow> i < lastrowid ids"
proof (cases ids)
  case Nil then show "i \<in> set ids \<Longrightarrow> ?thesis" by simp
next
  case (Cons a rest)
  assume "i \<in> set ids"
  then have "i \<le> fold max rest a" using fold_max_ge[of a rest] Cons by auto
  then show ?thesis by (simp add: lastrowid_def Cons)
qed

lemma query_one_fresh:
  assumes "\<forall>x \<in> set xs. \<not> P x" and "P y"
  shows "query_one (filter P (xs @ [y])) = Some y"
proof -
  have "filter P xs = []" using assms(1) by (simp add: filter_empty_conv)
  then show ?thesis using assms(2) by (simp add: query_one_def)
qed

lemma get_booking_by_id_inserted:
  assumes "b_booking_id row = lastrowid (map b_booking_id (bookings db))"
  shows "get_booking_by_id fi (db\<lparr>bookings := bookings db @ [row]\<rparr>) (b_booking_id row)
         = (case row_to_booking fi row of Inl e \<Rightarrow> Inl e | Inr b \<Rightarrow> Inr (Some b))"
proof -
  have "\<forall>x \<in> set (bookings db). \<not> (b_booking_id x = b_booking_id row)"
    using lastrowid_fresh[of _ "map b_booking_id (bookings db)"] assms by force
  then have "query_one (filter (\<lambda>b. b_booking_id b = b_booking_id row) (bookings db @ [row])) = Some row"
    by (rule query_one_fresh) simp
  then show ?thesis by (simp add: get_booking_by_id_def)
qed


subsection \<open>Creating a booking\<close>



lemma create_booking_conflict:
  "has_conflict db rid sv ev None \<Longrightarrow>
   create_booking fi now db rid uid sv ev ra notes = (db, Inl BookingConflict)"
  by (simp add: create_booking_def)

lemma create_booking_free:
  "\<not> has_conflict db rid sv ev None \<Longrightarrow>
   create_booking fi now db rid uid sv ev ra notes =
     (db\<lparr>bookings := bookings db @ [new_booking_row now db rid uid sv ev ra notes]\<rparr>,
      case row_to_booking fi (new_booking_row now db rid uid sv ev ra notes) of
        Inl e \<Rightarrow> Inl e | Inr b \<Rightarrow> Inr (Some b))"
  using get_booking_by_id_inserted[of "new_booking_row now db rid uid sv ev ra notes" db fi]
  by (simp add: create_booking_def Let_def new_booking_row_def)

lemma conflicts_with_None:
  "conflicts_with rid sv ev None b =
     (b_resource_id b = rid \<and> (b_status b = ''pending'' \<or> b_status b = ''approved'')
      \<and> \<not> (b_end_datetime b \<le> sv \<or> ev \<le> b_start_datetime b))"
  by (simp add: conflicts_with_def truthy_def)


lemma row_to_booking_fields:
  "row_to_booking fi row = Inr b \<Longrightarrow>
     booking_id b = b_booking_id row \<and> Booking.resource_id b = b_resource_id row
     \<and> requester_id b = b_requester_id row \<and> Booking.status b = b_status row
     \<and> approval_notes b = b_approval_notes row
     \<and> parse_dt fi (b_start_datetime row) = Inr (start_datetime b)
     \<and> parse_dt fi (b_end_datetime row) = Inr (end_datetime b)
     \<and> parse_dt fi (b_created_at row) = Inr (Booking.created_at b)
     \<and> parse_dt fi (b_updated_at row) = Inr (updated_at b)"
  by (auto simp: row_to_booking_def split: sum.splits)


text \<open>
  Claim C5. Whenever \<^verbatim>\<open>create_booking\<close> returns, it returns a booking whose status is
  \<open>pending\<close> if approval is required and \<open>approved\<close> otherwise; the booking is the
  entity of the row that the call appended (same resource, requester, notes, start and
  end), and reading that key back gives the same entity.
\<close>

theorem create_booking_initial_status:
  assumes "snd (create_booking fi now db rid uid sv ev ra notes) = Inr r"
  shows "\<exists>b row. r = Some b
           \<and> Booking.status b = (if ra then ''pending'' else ''approved'')
           \<and> bookings (fst (create_booking fi now db rid uid sv ev ra notes)) = bookings db @ [row]
           \<and> row_to_booking fi row = Inr b
           \<and> b_status row = Booking.status b
           \<and> Booking.resource_id b = rid \<and> requester_id b = uid \<and> approval_notes b = notes
           \<and> b_start_datetime row = sv \<and> b_end_datetime row = ev
           \<and> get_booking_by_id fi (fst (create_booking fi now db rid uid sv ev ra notes))
                (booking_id b) = Inr (Some b)"
proof -
  let ?r = "create_booking fi now db rid uid sv ev ra notes"
  let ?row = "new_booking_row now db rid uid sv ev ra notes"
  have nc: "\<not> has_conflict db rid sv ev None"
    using assms by (auto simp: create_booking_conflict)
  note eq = create_booking_free[OF nc]
  from assms obtain b where b: "row_to_booking fi ?row = Inr b" "r = Some b"
    by (auto simp: eq split: sum.splits)
  have id: "booking_id b = b_booking_id ?row" using row_to_booking_fields[OF b(1)] by simp
  have "get_booking_by_id fi (fst ?r) (booking_id b) = Inr (Some b)"
    using get_booking_by_id_inserted[of ?row db fi] b(1)
    by (simp add: eq id) (simp add: new_booking_row_def)
  then show ?thesis
    using b row_to_booking_fields[OF b(1)]
    by (intro exI[of _ b] exI[of _ ?row]) (simp add: eq, simp add: new_booking_row_def)
qed


subsection \<open>Evaluation on the example databases\<close>

lemmas scenario_defs = scenario_db_def scenario_booking_def scenario_resource_def
  scenario_thread_def scenario_message_1_def scenario_message_2_def


lemmas create_booking_eval = create_booking_def has_conflict_def conflicts_with_def query_one_def
  lastrowid_def get_booking_by_id_def row_to_booking_def parse_dt_def replace_space_T_def
  truthy_def Let_def

text \<open>Scenario 3 of the spec: a booking that needs no approval is approved at once.\<close>

theorem create_booking_initial_status_witness:
  "snd (create_booking Some ''2025-01-02 12:00:00'' scenario_db 7 4
          ''2025-01-03T11:00:00'' ''2025-01-03T12:00:00'' False (Some ''Auto-approved''))
     = Inr (Some \<lparr> booking_id = 2, Booking.resource_id = 7, requester_id = 4,
                    start_datetime = ''2025-01-03T11:00:00'',
                    end_datetime = ''2025-01-03T12:00:00'',
                    Booking.status = ''approved'', approval_notes = Some ''Auto-approved'',
                    Booking.created_at = ''2025-01-02T12:00:00'',
                    updated_at = ''2025-01-02T12:00:00'' \<rparr>)
   \<and> (\<exists>b row. Booking.status b = ''approved''
         \<and> bookings (fst (create_booking Some ''2025-01-02 12:00:00'' scenario_db 7 4
               ''2025-01-03T11:00:00'' ''2025-01-03T12:00:00'' False (Some ''Auto-approved'')))
             = bookings scenario_db @ [row]
         \<and> row_to_booking Some row = Inr b)"
proof -
  let ?b = "\<lparr> booking_id = 2, Booking.resource_id = 7, requester_id = 4,
                    start_datetime = ''2025-01-03T11:00:00'',
                    end_datetime = ''2025-01-03T12:00:00'',
                    Booking.status = ''approved'', approval_notes = Some ''Auto-approved'',
                    Booking.created_at = ''2025-01-02T12:00:00'',
                    updated_at = ''2025-01-02T12:00:00'' \<rparr>"
  have h: "snd (create_booking Some ''2025-01-02 12:00:00'' scenario_db 7 4
          ''2025-01-03T11:00:00'' ''2025-01-03T12:00:00'' False (Some ''Auto-approved''))
     = Inr (Some ?b)"
    by (simp add: create_booking_eval scenario_db_def scenario_booking_def)
  show ?thesis
    using h create_booking_initial_status [OF h] by auto
qed

subsection \<open>Status transitions\<close>

lemma update_bookings_frame:
  "resources (update_bookings c f db) = resources db
   \<and> admin_logs (update_bookings c f db) = admin_logs db
   \<and> threads (update_bookings c f db) = threads db
   \<and> messages (update_bookings c f db) = messages db
   \<and> length (bookings (update_bookings c f db)) = length (bookings db)"
  by (simp add: update_bookings_def)

lemma update_bookings_nth:
  "k < length (bookings db) \<Longrightarrow>
   bookings (update_bookings c f db) ! k =
     (if c (bookings db ! k) then f (bookings db ! k) else bookings db ! k)"
  by (simp add: update_bookings_def)

lemma update_bookings_noop:
  "\<forall>b \<in> set (bookings db). \<not> c b \<Longrightarrow> bookings (update_bookings c f db) = bookings db"
  by (simp add: update_bookings_def map_idI)

lemma bookings_log_admin_action:
  "bookings (log_admin_action now db a t x) = bookings db"
  by (simp add: log_admin_action_def)

lemma update_bookings_settled:
  assumes "\<And>b. c b \<Longrightarrow> \<not> c (f b)"
  shows "\<forall>b \<in> set (bookings (update_bookings c f db)). \<not> c b"
  using assms by (auto simp: update_bookings_def)

text \<open>
  Claim C4. \<^verbatim>\<open>approve_booking\<close> rewrites exactly the rows with the given key whose
  status is \<open>pending\<close>: they become \<open>approved\<close>, with the given notes. Every other row,
  a row with that key in another status included, stays as it is, and the operation raises
  nothing (it returns a database in every case). A second approval therefore finds nothing
  to rewrite and leaves the booking table as the first one left it. \<^verbatim>\<open>reject_booking\<close>
  does the same with \<open>rejected\<close>.
\<close>

theorem approve_reject_only_pending:
  "length (bookings (approve_booking now db bid approver notes)) = length (bookings db)
   \<and> (\<forall>k < length (bookings db).
        (b_booking_id (bookings db ! k) = bid \<and> b_status (bookings db ! k) = ''pending''
           \<longrightarrow> bookings (approve_booking now db bid approver notes) ! k
                = (bookings db ! k)\<lparr>b_status := ''approved'', b_approval_notes := notes,
                                      b_updated_at := now\<rparr>)
      \<and> (\<not> (b_booking_id (bookings db ! k) = bid \<and> b_status (bookings db ! k) = ''pending'')
           \<longrightarrow> bookings (approve_booking now db bid approver notes) ! k = bookings db ! k))
   \<and> bookings (approve_booking now' (approve_booking now db bid approver notes) bid approver' notes')
       = bookings (approve_booking now db bid approver notes)
   \<and> length (bookings (reject_booking now db bid approver notes)) = length (bookings db)
   \<and> (\<forall>k < length (bookings db).
        (b_booking_id (bookings db ! k) = bid \<and> b_status (bookings db ! k) = ''pending''
           \<longrightarrow> bookings (reject_booking now db bid approver notes) ! k
                = (bookings db ! k)\<lparr>b_status := ''rejected'', b_approval_notes := notes,
                                      b_updated_at := now\<rparr>)
      \<and> (\<not> (b_booking_id (bookings db ! k) = bid \<and> b_status (bookings db ! k) = ''pending'')
           \<longrightarrow> bookings (reject_booking now db bid approver notes) ! k = bookings db ! k))
   \<and> bookings (reject_booking now' (reject_booking now db bid approver notes) bid approver' notes')
       = bookings (reject_booking now db bid approver notes)"
proof -
  let ?c = "\<lambda>b. b_booking_id b = bid \<and> b_status b = ''pending''"
  let ?fa = "\<lambda>n s b. b\<lparr>b_status := ''approved'', b_approval_notes := s, b_updated_at := n\<rparr>"
  let ?fr = "\<lambda>n s b. b\<lparr>b_status := ''rejected'', b_approval_notes := s, b_updated_at := n\<rparr>"
  have a: "bookings (approve_booking n d bid ap s) = bookings (update_bookings ?c (?fa n s) d)"
    for n d ap s by (simp add: approve_booking_def bookings_log_admin_action)
  have r: "bookings (reject_booking n d bid ap s) = bookings (update_bookings ?c (?fr n s) d)"
    for n d ap s by (simp add: reject_booking_def bookings_log_admin_action)
  have sa: "\<forall>b \<in> set (bookings (approve_booking now db bid approver notes)). \<not> ?c b"
    unfolding a by (rule update_bookings_settled) simp
  have sr: "\<forall>b \<in> set (bookings (reject_booking now db bid approver notes)). \<not> ?c b"
    unfolding r by (rule update_bookings_settled) simp
  have ia: "bookings (approve_booking now' (approve_booking now db bid approver notes) bid approver' notes')
       = bookings (approve_booking now db bid approver notes)"
    unfolding a[of now' "approve_booking now db bid approver notes"]
    by (rule update_bookings_noop[OF sa])
  have ir: "bookings (reject_booking now' (reject_booking now db bid approver notes) bid approver' notes')
       = bookings (reject_booking now db bid approver notes)"
    unfolding r[of now' "reject_booking now db bid approver notes"]
    by (rule update_bookings_noop[OF sr])
  show ?thesis
    using ia ir by (simp add: a r update_bookings_frame update_bookings_nth)
qed

text \<open>
  Claim C8. \<^verbatim>\<open>cancel_booking\<close> sets the status of the rows with the given key to
  \<open>cancelled\<close> and \<^verbatim>\<open>complete_booking\<close> to \<open>completed\<close>, whatever the status was,
  and raises nothing. Of such a row only the status and \<^verbatim>\<open>updated_at\<close> change; the
  resource, the requester, start, end, notes and \<^verbatim>\<open>created_at\<close> stay, as do all rows
  with another key and all other tables.
\<close>

theorem cancel_complete_unconditional:
  "length (bookings (cancel_booking now db bid)) = length (bookings db)
   \<and> resources (cancel_booking now db bid) = resources db
   \<and> admin_logs (cancel_booking now db bid) = admin_logs db
   \<and> threads (cancel_booking now db bid) = threads db
   \<and> messages (cancel_booking now db bid) = messages db
   \<and> (\<forall>k < length (bookings db).
        (b_booking_id (bookings db ! k) = bid
           \<longrightarrow> bookings (cancel_booking now db bid) ! k
                = (bookings db ! k)\<lparr>b_status := ''cancelled'', b_updated_at := now\<rparr>
             \<and> b_status (bookings (cancel_booking now db bid) ! k) = ''cancelled''
             \<and> b_booking_id (bookings (cancel_booking now db bid) ! k) = bid
             \<and> b_resource_id (bookings (cancel_booking now db bid) ! k) = b_resource_id (bookings db ! k)
             \<and> b_requester_id (bookings (cancel_booking now db bid) ! k) = b_requester_id (bookings db ! k)
             \<and> b_start_datetime (bookings (cancel_booking now db bid) ! k) = b_start_datetime (bookings db ! k)
             \<and> b_end_datetime (bookings (cancel_booking now db bid) ! k) = b_end_datetime (bookings db ! k)
             \<and> b_approval_notes (bookings (cancel_booking now db bid) ! k) = b_approval_notes (bookings db ! k)
             \<and> b_created_at (bookings (cancel_booking now db bid) ! k) = b_created_at (bookings db ! k))
      \<and> (b_booking_id (bookings db ! k) \<noteq> bid
           \<longrightarrow> bookings (cancel_booking now db bid) ! k = bookings db ! k))
   \<and> length (bookings (complete_booking now db bid)) = length (bookings db)
   \<and> resources (complete_booking now db bid) = resources db
   \<and> admin_logs (complete_booking now db bid) = admin_logs db
   \<and> threads (complete_booking now db bid) = threads db
   \<and> messages (complete_booking now db bid) = messages db
   \<and> (\<forall>k < length (bookings db).
        (b_booking_id (bookings db ! k) = bid
           \<longrightarrow> bookings (complete_booking now db bid) ! k
                = (bookings db ! k)\<lparr>b_status := ''completed'', b_updated_at := now\<rparr>
             \<and> b_status (bookings (complete_booking now db bid) ! k) = ''completed''
             \<and> b_booking_id (bookings (complete_booking now db bid) ! k) = bid
             \<and> b_resource_id (bookings (complete_booking now db bid) ! k) = b_resource_id (bookings db ! k)
             \<and> b_requester_id (bookings (complete_booking now db bid) ! k) = b_requester_id (bookings db ! k)
             \<and> b_start_datetime (bookings (complete_booking now db bid) ! k) = b_start_datetime (bookings db ! k)
             \<and> b_end_datetime (bookings (complete_booking now db bid) ! k) = b_end_datetime (bookings db ! k)
             \<and> b_approval_notes (bookings (complete_booking now db bid) ! k) = b_approval_notes (bookings db ! k)
             \<and> b_created_at (bookings (complete_booking now db bid) ! k) = b_created_at (bookings db ! k))
      \<and> (b_booking_id (bookings db ! k) \<noteq> bid
           \<longrightarrow> bookings (complete_booking now db bid) ! k = bookings db ! k))"
  by (simp add: cancel_booking_def complete_booking_def update_bookings_frame update_bookings_nth)

text \<open>
  Scenario 1 of the spec: the owner approves the pending booking, a late second approval
  changes nothing, and a rejection of the approved booking changes nothing either.
\<close>

theorem approve_reject_only_pending_witness:
  "bookings (approve_booking ''2025-01-02 09:00:00'' pending_db 1 5 (Some ''See you soon'')) ! 0
     = scenario_booking\<lparr>b_status := ''approved'', b_approval_notes := Some ''See you soon'',
                         b_updated_at := ''2025-01-02 09:00:00''\<rparr>
   \<and> bookings (approve_booking ''2025-01-02 09:30:00''
         (approve_booking ''2025-01-02 09:00:00'' pending_db 1 5 (Some ''See you soon'')) 1 5 None)
     = bookings (approve_booking ''2025-01-02 09:00:00'' pending_db 1 5 (Some ''See you soon''))
   \<and> bookings (reject_booking ''2025-01-02 09:00:00'' scenario_db 1 5 (Some ''Too late'')) ! 0
     = scenario_booking"
  using approve_reject_only_pending
          [of "''2025-01-02 09:00:00''" pending_db 1 5 "Some ''See you soon''"
              "''2025-01-02 09:30:00''" 5 None]
        approve_reject_only_pending
          [of "''2025-01-02 09:00:00''" scenario_db 1 5 "Some ''Too late''"]
  by (simp add: pending_db_def scenario_db_def scenario_booking_def)

text \<open>Completing the approved booking, then cancelling the completed one.\<close>

theorem cancel_complete_unconditional_witness:
  "bookings (cancel_booking ''2025-01-04 09:00:00''
       (complete_booking ''2025-01-03 12:00:00'' scenario_db 1) 1) ! 0
     = (bookings (complete_booking ''2025-01-03 12:00:00'' scenario_db 1) ! 0)
         \<lparr>b_status := ''cancelled'', b_updated_at := ''2025-01-04 09:00:00''\<rparr>
   \<and> bookings (complete_booking ''2025-01-03 12:00:00'' scenario_db 1) ! 0
     = scenario_booking\<lparr>b_status := ''completed'', b_updated_at := ''2025-01-03 12:00:00''\<rparr>
   \<and> bookings (cancel_booking ''2025-01-04 09:00:00'' scenario_db 2) ! 0 = scenario_booking"
  using cancel_complete_unconditional
          [of "''2025-01-04 09:00:00''" "complete_booking ''2025-01-03 12:00:00'' scenario_db 1" 1]
        cancel_complete_unconditional [of "''2025-01-03 12:00:00''" scenario_db 1]
        cancel_complete_unconditional [of "''2025-01-04 09:00:00''" scenario_db 2]
  by (simp add: scenario_db_def scenario_booking_def)

subsection \<open>Participants of a thread\<close>





lemmas messaging_eval = thread_participants_def get_thread_def get_messages_def
  get_booking_by_id_def get_resource_by_id_def row_to_thread_def row_to_message_def
  row_to_booking_def row_to_resource_def parse_dt_def replace_space_T_def query_one_def
  messages_of_thread_def truthy_def Let_def


text \<open>\<^verbatim>\<open>create_booking\<close> keeps the booking keys positive.\<close>

lemma lastrowid_positive: "list_all (\<lambda>i. 0 < i) ids \<Longrightarrow> 0 < lastrowid ids"
proof (cases ids)
  case Nil then show ?thesis by (simp add: lastrowid_def)
next
  case (Cons a rest)
  assume "list_all (\<lambda>i. 0 < i) ids"
  then have "0 < a" using Cons by simp
  moreover have "a \<le> fold max rest a" using fold_max_ge[of a rest] by simp
  ultimately show ?thesis by (simp add: lastrowid_def Cons)
qed

lemma create_booking_keys_positive:
  assumes "booking_keys_positive db"
  shows "booking_keys_positive (fst (create_booking fi now db rid uid sv ev ra notes))"
proof -
  have "list_all (\<lambda>i. 0 < i) (map b_booking_id (bookings db))"
    using assms by (simp add: booking_keys_positive_def list_all_iff)
  from lastrowid_positive[OF this] show ?thesis
    using assms by (simp add: create_booking_def Let_def booking_keys_positive_def)
qed

subsection \<open>Missing messaging tables\<close>



text \<open>
  The second caller of \<^verbatim>\<open>list_threads_for_admin\<close>, the admin view of all threads, has
  no \<^verbatim>\<open>try\<close>: there the error leaves the handler.
\<close>

lemma admin_threads_schema_unavailable:
  "threads db = None \<or> messages db = None \<Longrightarrow>
   admin_threads fi db = Inl (MessagingSchemaError SCHEMA_INSTRUCTIONS)"
  by (auto simp: admin_threads_def list_threads_for_admin_def schema_error_def split: option.splits)

lemma list_threads_for_admin_provisioned:
  "threads db = Some ts \<Longrightarrow> messages db = Some ms \<Longrightarrow> \<exists>rows. list_threads_for_admin db = Inr rows"
  by (simp add: list_threads_for_admin_def)

subsection \<open>The interval of a booking request\<close>


text \<open>
  \<^verbatim>\<open>create_booking\<close> itself compares the two texts with the stored bookings only:
  without a conflicting booking it appends the row, whatever the order of start and end.
\<close>

lemma create_booking_no_interval_check:
  assumes "\<forall>b \<in> set (bookings db).
             b_resource_id b = rid \<and> (b_status b = ''pending'' \<or> b_status b = ''approved'')
             \<longrightarrow> b_end_datetime b \<le> sv \<or> ev \<le> b_start_datetime b"
  shows "bookings (fst (create_booking fi now db rid uid sv ev ra notes))
           = bookings db @ [new_booking_row now db rid uid sv ev ra notes]"
proof -
  have "\<not> has_conflict db rid sv ev None"
    using assms by (auto simp: has_conflict_iff conflicts_with_None)
  then show ?thesis by (simp add: create_booking_free)
qed



subsection \<open>The content of a message\<close>

lemma validate_on_submit_content:
  "validate_on_submit form \<Longrightarrow>
     \<exists>s. content_raw form = Some s \<and> s \<noteq> [] \<and> length s \<le> 2000"
  by (auto simp: validate_on_submit_def InputRequired_def Length_validator_def Let_def
           split: option.splits)

text \<open>\<^verbatim>\<open>post_message\<close> itself appends whatever content it is given.\<close>

lemma post_message_appends:
  "messages db = Some ms \<Longrightarrow>
   messages (fst (post_message fi now db tid sender receiver text))
     = Some (ms @ [\<lparr> m_message_id = lastrowid (map m_message_id ms), m_thread_id = Some tid,
                      m_sender_id = sender, m_receiver_id = receiver, m_content = text,
                      m_timestamp = now \<rparr>])"
  by (simp add: post_message_def Let_def)

text \<open>
  Claim C9, as the code has it. The bounds on the content of a message are the validators
  of \<^verbatim>\<open>MessageForm\<close>, checked by the handler before it calls \<^verbatim>\<open>post_message\<close>:
  when the submitted content is absent, empty or longer than 2000 characters, the form
  does not validate and the view \<^verbatim>\<open>thread\<close> leaves the database unchanged, so no
  message is appended.
\<close>

theorem message_content_checked_by_form:
  assumes "content_raw form = None \<or> content_raw form = Some []
           \<or> (\<exists>s. content_raw form = Some s \<and> 2000 < length s)"
  shows "\<not> validate_on_submit form
         \<and> fst (thread_view fi now db u tid form) = db"
proof -
  have nv: "\<not> validate_on_submit form"
    using assms validate_on_submit_content[of form] by auto
  have "fst (thread_view fi now db u tid form) = db"
    unfolding thread_view_def using nv
    by (auto split: sum.splits error.splits option.splits prod.splits)
  with nv show ?thesis by simp
qed

text \<open>An empty content: \<^verbatim>\<open>post_message\<close> stores it as message 1 and returns it.\<close>

theorem post_message_accepts_empty_content:
  "post_message Some ''2025-01-02 10:00:00'' quiet_db 1 3 5 ''''
   = (quiet_db\<lparr>messages := Some
         [\<lparr> m_message_id = 1, m_thread_id = Some 1, m_sender_id = 3, m_receiver_id = 5,
            m_content = '''', m_timestamp = ''2025-01-02 10:00:00'' \<rparr>]\<rparr>,
      Inr (Some \<lparr> message_id = 1, Message.thread_id = 1, sender_id = 3, receiver_id = 5,
                   content = '''', timestamp = ''2025-01-02T10:00:00'' \<rparr>))"
  by (simp add: post_message_def get_message_by_id_def row_to_message_def parse_dt_def
        replace_space_T_def query_one_def lastrowid_def Let_def quiet_db_def scenario_db_def)

text \<open>The requester submits an empty reply, then one of 2001 characters.\<close>

theorem message_content_checked_by_form_witness:
  "\<not> validate_on_submit \<lparr> is_submitted = True, csrf_valid = True, content_raw = Some '''' \<rparr>
   \<and> fst (thread_view Some ''2025-01-02 10:10:00'' scenario_db \<lparr> user_id = 3, role = ''student'' \<rparr> 1
            \<lparr> is_submitted = True, csrf_valid = True, content_raw = Some '''' \<rparr>) = scenario_db
   \<and> fst (thread_view Some ''2025-01-02 10:10:00'' scenario_db \<lparr> user_id = 3, role = ''student'' \<rparr> 1
            \<lparr> is_submitted = True, csrf_valid = True,
              content_raw = Some (replicate 2001 (CHR ''a'')) \<rparr>) = scenario_db"
  using message_content_checked_by_form
          [of "\<lparr> is_submitted = True, csrf_valid = True, content_raw = Some '''' \<rparr>"
              Some "''2025-01-02 10:10:00''" scenario_db "\<lparr> user_id = 3, role = ''student'' \<rparr>" 1]
        message_content_checked_by_form
          [of "\<lparr> is_submitted = True, csrf_valid = True,
                 content_raw = Some (replicate 2001 (CHR ''a'')) \<rparr>"
              Some "''2025-01-02 10:10:00''" scenario_db "\<lparr> user_id = 3, role = ''student'' \<rparr>" 1]
  by simp

text \<open>A reply that validates is posted to the other party of the last message.\<close>

lemma thread_view_posts_valid_reply:
  "thread_view Some ''2025-01-02 10:10:00'' scenario_db \<lparr> user_id = 3, role = ''student'' \<rparr> 1
      \<lparr> is_submitted = True, csrf_valid = True, content_raw = Some ''Thanks'' \<rparr>
   = (scenario_db\<lparr>messages := Some
        [scenario_message_1, scenario_message_2,
         \<lparr> m_message_id = 3, m_thread_id = Some 1, m_sender_id = 3, m_receiver_id = 9,
           m_content = ''Thanks'', m_timestamp = ''2025-01-02 10:10:00'' \<rparr>]\<rparr>,
      [(''Message sent.'', ''success'')], Redirect (messaging_thread 1))"
  by (simp add: thread_view_def ensure_thread_access_def messaging_eval post_message_def
        get_message_by_id_def lastrowid_def validate_on_submit_def InputRequired_def
        Length_validator_def content_data_def is_admin_def scenario_defs)


subsection \<open>Reading the messages of a thread\<close>

lemma map_rows_Inr_iff:
  "map_rows f rows = Inr out \<longleftrightarrow> list_all2 (\<lambda>r x. f r = Inr x) rows out"
proof (induction rows arbitrary: out)
  case Nil
  show ?case by auto
next
  case (Cons r rows)
  show ?case
  proof (cases "f r")
    case (Inl e)
    then show ?thesis by (auto simp: list_all2_Cons1)
  next
    case (Inr x)
    then show ?thesis
      using Cons.IH by (cases "map_rows f rows") (auto simp: list_all2_Cons1)
  qed
qed

lemma map_rows_total:
  "(\<forall>r \<in> set rows. \<exists>x. f r = Inr x) \<Longrightarrow> \<exists>out. map_rows f rows = Inr out"
  by (induction rows) auto

lemma row_to_message_total:
  "fi (replace_space_T (m_timestamp r)) \<noteq> None \<Longrightarrow> \<exists>m. row_to_message fi r = Inr m"
  by (auto simp: row_to_message_def parse_dt_def)

text \<open>
  \<^verbatim>\<open>get_messages\<close> reads every row of the thread, in non-decreasing order of the stored
  timestamps, and returns their entities unless a timestamp is no ISO text.
\<close>

lemma get_messages_sorted_complete:
  assumes "messages db = Some ms"
  shows "\<exists>rows. mset rows = mset (filter (\<lambda>m. m_thread_id m = Some tid) ms)
              \<and> sorted (map m_timestamp rows)
              \<and> get_messages fi db tid = map_rows (row_to_message fi) rows
              \<and> (\<forall>out. get_messages fi db tid = Inr out
                    \<longleftrightarrow> list_all2 (\<lambda>r m. row_to_message fi r = Inr m) rows out)"
  using assms
  by (intro exI[of _ "sort_key m_timestamp (filter (\<lambda>m. m_thread_id m = Some tid) ms)"])
     (simp add: get_messages_def messages_of_thread_def map_rows_Inr_iff)

text \<open>
  \<^verbatim>\<open>get_messages_since\<close> reads the rows of the thread whose stored timestamp is
  greater than the given text in the store's comparison of texts, in the same order.
\<close>

lemma get_messages_since_stored_text:
  assumes "messages db = Some ms"
  shows "\<exists>rows. mset rows = mset (filter (\<lambda>m. m_thread_id m = Some tid \<and> since < m_timestamp m) ms)
              \<and> sorted (map m_timestamp rows)
              \<and> get_messages_since fi db tid since = map_rows (row_to_message fi) rows
              \<and> (\<forall>out. get_messages_since fi db tid since = Inr out
                    \<longleftrightarrow> list_all2 (\<lambda>r m. row_to_message fi r = Inr m) rows out)"
  using assms
  by (intro exI[of _ "sort_key m_timestamp
                        (filter (\<lambda>m. m_thread_id m = Some tid \<and> since < m_timestamp m) ms)"])
     (simp add: get_messages_since_def map_rows_Inr_iff)

lemma get_messages_returns:
  assumes "messages db = Some ms"
      and "\<forall>m \<in> set ms. m_thread_id m = Some tid \<longrightarrow> fi (replace_space_T (m_timestamp m)) \<noteq> None"
  shows "\<exists>out. get_messages fi db tid = Inr out"
proof -
  have "\<forall>r \<in> set (sort_key m_timestamp (messages_of_thread ms tid)). \<exists>x. row_to_message fi r = Inr x"
    using assms(2) by (auto simp: messages_of_thread_def intro: row_to_message_total)
  from map_rows_total[OF this] show ?thesis using assms(1) by (simp add: get_messages_def)
qed

text \<open>
  The entities are in non-decreasing order of their \<^verbatim>\<open>datetime\<close> values when the
  conversion keeps the order of the stored texts.
\<close>

lemma row_to_message_timestamp:
  "row_to_message fi r = Inr m \<Longrightarrow> parse_dt fi (m_timestamp r) = Inr (timestamp m)"
  by (auto simp: row_to_message_def split: sum.splits)

lemma get_messages_entities_sorted:
  fixes fi :: "string \<Rightarrow> ('d::linorder) option"
  assumes "messages db = Some ms"
      and "get_messages fi db tid = Inr out"
      and mono: "\<And>a b x y. a \<le> b \<Longrightarrow> parse_dt fi a = Inr x \<Longrightarrow> parse_dt fi b = Inr y \<Longrightarrow> x \<le> y"
  shows "sorted (map timestamp out)"
proof -
  let ?rows = "sort_key m_timestamp (messages_of_thread ms tid)"
  have l: "list_all2 (\<lambda>r m. row_to_message fi r = Inr m) ?rows out"
    using assms(1,2) by (simp add: get_messages_def map_rows_Inr_iff)
  have s: "sorted (map m_timestamp ?rows)" by simp
  have len: "length ?rows = length out" using l by (rule list_all2_lengthD)
  show ?thesis
  proof (unfold sorted_iff_nth_mono, intro allI impI)
    fix i j assume ij: "i \<le> j" "j < length (map timestamp out)"
    then have j: "j < length ?rows" and i: "i < length ?rows" using len by auto
    have "m_timestamp (?rows ! i) \<le> m_timestamp (?rows ! j)"
      using s ij(1) i j by (auto simp: sorted_iff_nth_mono dest!: spec[of _ i] spec[of _ j])
    moreover have "parse_dt fi (m_timestamp (?rows ! i)) = Inr (timestamp (out ! i))"
      using l i by (auto intro!: row_to_message_timestamp dest: list_all2_nthD)
    moreover have "parse_dt fi (m_timestamp (?rows ! j)) = Inr (timestamp (out ! j))"
      using l j by (auto intro!: row_to_message_timestamp dest: list_all2_nthD)
    ultimately have "timestamp (out ! i) \<le> timestamp (out ! j)" by (rule mono)
    then show "map timestamp out ! i \<le> map timestamp out ! j"
      using i j len by simp
  qed
qed

text \<open>
  Claim C3 at the thread of the example. The store stamps messages as
  \<^verbatim>\<open>2025-01-02 10:00:00\<close>, with a space; the entities, and the JSON of the polling
  view, show the same instants as \<^verbatim>\<open>2025-01-02T10:00:00\<close>. \<^verbatim>\<open>get_messages\<close>
  returns both messages in order. Asked for the messages since the first one,
  \<^verbatim>\<open>get_messages_since\<close> returns none when the timestamp is given as the entity shows
  it, because the space of a stored text is smaller than the letter T, and returns the
  second message when the timestamp is given as the store holds it.
\<close>

theorem get_messages_since_isoformat_separator:
  "get_messages Some scenario_db 1
     = Inr [\<lparr> message_id = 1, Message.thread_id = 1, sender_id = 3, receiver_id = 5,
              content = ''Is the lab free?'', timestamp = ''2025-01-02T10:00:00'' \<rparr>,
            \<lparr> message_id = 2, Message.thread_id = 1, sender_id = 9, receiver_id = 3,
              content = ''It is.'', timestamp = ''2025-01-02T10:05:00'' \<rparr>]
   \<and> get_messages_since Some scenario_db 1 ''2025-01-02T10:00:00'' = Inr []
   \<and> get_messages_since Some scenario_db 1 ''2025-01-02 10:00:00''
     = Inr [\<lparr> message_id = 2, Message.thread_id = 1, sender_id = 9, receiver_id = 3,
              content = ''It is.'', timestamp = ''2025-01-02T10:05:00'' \<rparr>]"
  by (simp add: get_messages_def get_messages_since_def messages_of_thread_def row_to_message_def
        parse_dt_def replace_space_T_def scenario_defs)


text \<open>
  The same through the polling view, for the owner of the resource: the view shows the
  timestamps with the letter T, and a poll with the timestamp of the first message as it
  was shown brings nothing.
\<close>

lemma thread_since_round_trip:
  "thread_since Some (\<lambda>d. d) scenario_db \<lparr> user_id = 5, role = ''staff'' \<rparr> 1
      (Some ''2025-01-02 09:00:00'')
     = Json_messages
        [\<lparr> j_message_id = 1, j_sender_id = 3, j_receiver_id = 5,
           j_content = ''Is the lab free?'', j_timestamp = ''2025-01-02T10:00:00'' \<rparr>,
         \<lparr> j_message_id = 2, j_sender_id = 9, j_receiver_id = 3,
           j_content = ''It is.'', j_timestamp = ''2025-01-02T10:05:00'' \<rparr>]
   \<and> thread_since Some (\<lambda>d. d) scenario_db \<lparr> user_id = 5, role = ''staff'' \<rparr> 1
      (Some ''2025-01-02T10:00:00'')
     = Json_messages []"
  by (simp add: thread_since_def ensure_thread_access_def messaging_eval get_messages_since_def
        is_admin_def scenario_defs)

subsection \<open>Listings of threads\<close>

lemma activity_before_total: "activity_before a b \<or> activity_before b a"
  by (cases a; cases b) auto

lemma activity_before_trans:
  "activity_before a b \<Longrightarrow> activity_before b c \<Longrightarrow> activity_before a c"
  by (cases a; cases b; cases c) auto

lemma set_insert_listing: "set (insert_listing x ys) = insert x (set ys)"
  by (induction ys) auto

lemma mset_insert_listing: "mset (insert_listing x ys) = add_mset x (mset ys)"
  by (induction ys) auto

lemma sorted_insert_listing:
  assumes "sorted_wrt (\<lambda>a b. activity_before (last_activity a) (last_activity b)) ys"
  shows "sorted_wrt (\<lambda>a b. activity_before (last_activity a) (last_activity b)) (insert_listing x ys)"
  using assms
proof (induction ys)
  case Nil
  show ?case by simp
next
  case (Cons y ys)
  show ?case
  proof (cases "activity_before (last_activity x) (last_activity y)")
    case True
    then show ?thesis using Cons.prems
      by (auto intro: activity_before_trans)
  next
    case False
    then have "activity_before (last_activity y) (last_activity x)"
      using activity_before_total by blast
    then show ?thesis using False Cons
      by (auto simp: set_insert_listing)
  qed
qed

lemma mset_order_by_activity: "mset (order_by_activity rows) = mset rows"
  unfolding order_by_activity_def by (induction rows) (simp_all add: mset_insert_listing)

lemma sorted_order_by_activity:
  "sorted_wrt (\<lambda>a b. activity_before (last_activity a) (last_activity b)) (order_by_activity rows)"
  unfolding order_by_activity_def by (induction rows) (simp_all add: sorted_insert_listing)

lemma thread_id_listing_of: "t_thread_id (listing_of t grp) = t_thread_id t"
  by (simp add: listing_of_def thread_row.extend_def)

text \<open>
  The listing of a user holds exactly the threads with a message that the user sent or
  received, ordered by \<^verbatim>\<open>last_activity\<close> descending.
\<close>

lemma list_threads_for_user_members:
  assumes "threads db = Some ts" and "messages db = Some ms"
  shows "\<exists>rows. list_threads_for_user db uid = Inr rows
           \<and> t_thread_id ` set rows =
               {t_thread_id t | t. t \<in> set ts
                  \<and> (\<exists>m \<in> set ms. m_thread_id m = Some (t_thread_id t)
                        \<and> (m_sender_id m = uid \<or> m_receiver_id m = uid))}
           \<and> sorted_wrt (\<lambda>a b. activity_before (last_activity a) (last_activity b)) rows"
proof -
  let ?grp = "\<lambda>t. user_messages_of_thread ms uid (t_thread_id t)"
  let ?pre = "map (\<lambda>t. listing_of t (?grp t)) (filter (\<lambda>t. ?grp t \<noteq> []) ts)"
  have eq: "list_threads_for_user db uid = Inr (order_by_activity ?pre)"
    using assms by (simp add: list_threads_for_user_def)
  have ne: "?grp t \<noteq> [] \<longleftrightarrow> (\<exists>m \<in> set ms. m_thread_id m = Some (t_thread_id t)
                        \<and> (m_sender_id m = uid \<or> m_receiver_id m = uid))" for t
    by (auto simp: user_messages_of_thread_def messages_of_thread_def filter_empty_conv)
  have st: "set (order_by_activity ?pre) = set ?pre"
    using mset_order_by_activity[of ?pre] by (rule mset_eq_setD)
  have "t_thread_id ` set ?pre = t_thread_id ` set (filter (\<lambda>t. ?grp t \<noteq> []) ts)"
    by (simp add: image_image thread_id_listing_of)
  also have "\<dots> = {t_thread_id t | t. t \<in> set ts \<and> ?grp t \<noteq> []}"
    by auto
  finally have "t_thread_id ` set (order_by_activity ?pre) =
               {t_thread_id t | t. t \<in> set ts \<and> ?grp t \<noteq> []}"
    by (simp only: st)
  then show ?thesis
    using sorted_order_by_activity[of ?pre] by (simp only: eq ne) simp
qed

lemmas listing_eval = list_threads_for_user_def list_threads_for_admin_def order_by_activity_def
  listing_of_def max_timestamp_def user_messages_of_thread_def messages_of_thread_def
  thread_row.extend_def thread_listing.fields_def


text \<open>
  Claim C10 at the thread of the example, which holds two messages, the later one from
  the administrator to the requester. In the listing of the owner (user 5) the thread has
  message count 1 and the timestamp of the first message as last activity: the aggregates
  run over the messages that the user sent or received. The listing for administrators
  gives the same thread count 2 and the timestamp of the second message.
\<close>

theorem list_threads_for_user_counts_own_messages:
  "list_threads_for_user scenario_db 5
     = Inr [\<lparr> t_thread_id = 1, t_context_type = ''booking'', t_context_id = Some 1,
              t_created_by = 3, t_created_at = ''2025-01-02 10:00:00'',
              last_activity = Some ''2025-01-02 10:00:00'', message_count = 1 \<rparr>]
   \<and> list_threads_for_admin scenario_db
     = Inr [\<lparr> t_thread_id = 1, t_context_type = ''booking'', t_context_id = Some 1,
              t_created_by = 3, t_created_at = ''2025-01-02 10:00:00'',
              last_activity = Some ''2025-01-02 10:05:00'', message_count = 2 \<rparr>]"
  by (simp add: listing_eval scenario_defs)

end
